theory Spec2Isabelle
  imports Main
begin

chapter \<open>pc_phone_agent: the agent loop, tool results and the schema generator\<close>

text \<open>
  A shallow embedding of \<^verbatim>\<open>app/agent/base.py\<close> (\<^verbatim>\<open>BaseAgent\<close>),
  \<^verbatim>\<open>app/tool/base.py\<close> (\<^verbatim>\<open>ToolResult\<close>) and
  \<^verbatim>\<open>app/tool/create_chat_completion.py\<close> (\<^verbatim>\<open>CreateChatCompletion\<close>).
  Mutation of \<^verbatim>\<open>self\<close> is explicit state passing, a raised exception is the
  \<open>Inl\<close> branch of a sum, and the \<^verbatim>\<open>while\<close> loop of \<^verbatim>\<open>run\<close> is a
  recursive function in the option monad (\<open>None\<close> = the loop never ends).
\<close>

section \<open>Python values\<close>

text \<open>
  The values that travel through \<^verbatim>\<open>Any\<close>-typed fields, keyword arguments and the JSON
  schema dictionaries. A \<^verbatim>\<open>dict\<close> with string keys is an association list in
  insertion order. Floating point values, byte strings, sets and objects of other classes
  are left out.
\<close>

datatype pyval =
    PNone
  | PBool bool
  | PInt int
  | PStr string
  | PList "pyval list"
  | PTuple "pyval list"
  | PDict "(string \<times> pyval) list"

datatype AgentState = IDLE | RUNNING | FINISHED | ERROR

text \<open>
  The exceptions of the program. \<open>RuntimeError s\<close> is the
  \<^verbatim>\<open>RuntimeError(f"Cannot run agent from state: {self.state}")\<close> of \<^verbatim>\<open>run\<close>,
  carrying the state instead of its rendering; \<open>StepFailure\<close> stands for whatever a
  subclass's \<^verbatim>\<open>step\<close> raises. The message of a \<open>TypeError\<close> is shortened: the
  interpreter also names the operand types.
\<close>

datatype exc =
    RuntimeError AgentState
  | ValueError string
  | TypeError string
  | AttributeError string
  | KeyError string
  | RecursionError
  | StepFailure string

text \<open>Python truthiness: \<^verbatim>\<open>None\<close>, \<^verbatim>\<open>False\<close>, \<^verbatim>\<open>0\<close> and empty containers are false.\<close>

fun truthy :: "pyval \<Rightarrow> bool" where
  "truthy PNone = False"
| "truthy (PBool b) = b"
| "truthy (PInt i) = (i \<noteq> 0)"
| "truthy (PStr s) = (s \<noteq> [])"
| "truthy (PList xs) = (xs \<noteq> [])"
| "truthy (PTuple xs) = (xs \<noteq> [])"
| "truthy (PDict kvs) = (kvs \<noteq> [])"

text \<open>Truthiness of an \<^verbatim>\<open>Optional[str]\<close>: neither \<^verbatim>\<open>None\<close> nor the empty string.\<close>

fun truthy_opt :: "string option \<Rightarrow> bool" where
  "truthy_opt None = False"
| "truthy_opt (Some s) = (s \<noteq> [])"

text \<open>The binary \<^verbatim>\<open>+\<close> on the values above (\<^verbatim>\<open>bool\<close> is a subclass of \<^verbatim>\<open>int\<close>).\<close>

fun py_add :: "pyval \<Rightarrow> pyval \<Rightarrow> exc + pyval" where
  "py_add (PStr a) (PStr b) = Inr (PStr (a @ b))"
| "py_add (PList a) (PList b) = Inr (PList (a @ b))"
| "py_add (PTuple a) (PTuple b) = Inr (PTuple (a @ b))"
| "py_add (PInt a) (PInt b) = Inr (PInt (a + b))"
| "py_add (PInt a) (PBool b) = Inr (PInt (a + (if b then 1 else 0)))"
| "py_add (PBool a) (PInt b) = Inr (PInt ((if a then 1 else 0) + b))"
| "py_add (PBool a) (PBool b) = Inr (PInt ((if a then 1 else 0) + (if b then 1 else 0)))"
| "py_add a b = Inl (TypeError ''unsupported operand type(s) for +'')"

text \<open>\<^verbatim>\<open>str + str\<close> on optional strings; \<^verbatim>\<open>None\<close> has no \<^verbatim>\<open>+\<close>.\<close>

fun opt_add :: "string option \<Rightarrow> string option \<Rightarrow> exc + string option" where
  "opt_add (Some a) (Some b) = Inr (Some (a @ b))"
| "opt_add a b = Inl (TypeError ''unsupported operand type(s) for +'')"

subsection \<open>Text helpers\<close>

definition newline :: string where
  "newline = [CHR 0x0A]"

text \<open>\<^verbatim>\<open>sep.join(xs)\<close>.\<close>

fun str_join :: "string \<Rightarrow> string list \<Rightarrow> string" where
  "str_join sep [] = []"
| "str_join sep [x] = x"
| "str_join sep (x # y # ys) = x @ sep @ str_join sep (y # ys)"

text \<open>\<^verbatim>\<open>str(n)\<close> for an integer, as an f-string renders it.\<close>

definition digit_char :: "nat \<Rightarrow> char" where
  "digit_char d = ''0123456789'' ! d"

fun str_nat :: "nat \<Rightarrow> string" where
  "str_nat n = (if n < 10 then [digit_char n] else str_nat (n div 10) @ [digit_char (n mod 10)])"

declare str_nat.simps [simp del]

definition str_int :: "int \<Rightarrow> string" where
  "str_int i = (if i < 0 then CHR ''-'' # str_nat (nat (- i)) else str_nat (nat i))"

text \<open>The text after the last line break of a string: its last line.\<close>

definition last_line :: "string \<Rightarrow> string" where
  "last_line s = rev (takeWhile (\<lambda>c. c \<noteq> CHR 0x0A) (rev s))"

section \<open>Messages and memory\<close>

text \<open>
  Modelled from the spec: \<^verbatim>\<open>app/schema.py\<close> (\<^verbatim>\<open>Message\<close>, \<^verbatim>\<open>Memory\<close>,
  \<^verbatim>\<open>ROLE_TYPE\<close>, the role-specific constructors and \<^verbatim>\<open>add_message\<close>) is not part of
  the sources. The spec gives a message a role out of system, user, assistant and tool, a
  text content, an optional image and an optional tool-call identifier, and makes the
  memory an ordered sequence of messages to which \<^verbatim>\<open>add_message\<close> appends.
\<close>

datatype Role = Role_system | Role_user | Role_assistant | Role_tool

record Message =
  role :: Role
  content :: string
  base64_image :: "string option"
  tool_call_id :: "string option"

record Memory =
  messages :: "Message list"

definition add_message :: "Message \<Rightarrow> Memory \<Rightarrow> Memory" where
  "add_message message mem = mem\<lparr>messages := messages mem @ [message]\<rparr>"

definition user_message :: "string \<Rightarrow> string option \<Rightarrow> Message" where
  "user_message c img = \<lparr>role = Role_user, content = c, base64_image = img, tool_call_id = None\<rparr>"

definition system_message :: "string \<Rightarrow> string option \<Rightarrow> Message" where
  "system_message c img = \<lparr>role = Role_system, content = c, base64_image = img, tool_call_id = None\<rparr>"

definition assistant_message :: "string \<Rightarrow> string option \<Rightarrow> Message" where
  "assistant_message c img =
     \<lparr>role = Role_assistant, content = c, base64_image = img, tool_call_id = None\<rparr>"

definition tool_message :: "string \<Rightarrow> string option \<Rightarrow> string option \<Rightarrow> exc + Message" where
  "tool_message c call_id img =
     (case call_id of
        None \<Rightarrow> Inl (TypeError ''missing required argument: tool_call_id'')
      | Some i \<Rightarrow> Inr \<lparr>role = Role_tool, content = c, base64_image = img, tool_call_id = Some i\<rparr>)"

section \<open>The agent\<close>

text \<open>
  The fields of \<^verbatim>\<open>BaseAgent\<close>; the language-model client \<^verbatim>\<open>llm\<close> is an opaque
  collaborator that none of the operations below reads.
\<close>

record BaseAgent =
  name :: string
  description :: "string option"
  system_prompt :: "string option"
  next_step_prompt :: "string option"
  memory :: Memory
  state :: AgentState
  max_steps :: int
  current_step :: int
  duplicate_threshold :: int

text \<open>
  The abstract \<^verbatim>\<open>step\<close> of a subclass: it may change the agent in any way and either
  returns its summary or raises.
\<close>

type_synonym step_fun = "BaseAgent \<Rightarrow> (exc + string) \<times> BaseAgent"

text \<open>
  \<^verbatim>\<open>state_context\<close>: an \<^verbatim>\<open>asynccontextmanager\<close> around a body. The
  \<^verbatim>\<open>isinstance(new_state, AgentState)\<close> test cannot fail on a value of the datatype.
  When the body raises, the \<^verbatim>\<open>except\<close> clause writes \<^verbatim>\<open>ERROR\<close> and re-raises,
  and the \<^verbatim>\<open>finally\<close> clause then runs as on every exit.
\<close>

definition state_context ::
  "AgentState \<Rightarrow> (BaseAgent \<Rightarrow> ((exc + 'a) \<times> BaseAgent) option) \<Rightarrow> BaseAgent
     \<Rightarrow> ((exc + 'a) \<times> BaseAgent) option" where
  "state_context new_state body self =
     (let previous_state = state self;
          self1 = self\<lparr>state := new_state\<rparr>
      in case body self1 of
           None \<Rightarrow> None
         | Some (Inl e, self2) \<Rightarrow>
             (let self3 = self2\<lparr>state := ERROR\<rparr>
              in Some (Inl e, self3\<lparr>state := previous_state\<rparr>))
         | Some (Inr r, self2) \<Rightarrow> Some (Inr r, self2\<lparr>state := previous_state\<rparr>))"

text \<open>\<^verbatim>\<open>update_memory\<close>; the role arrives as a string, \<open>call_id\<close> is the keyword
  argument \<^verbatim>\<open>tool_call_id\<close>, which only the tool role passes on.\<close>

definition update_memory ::
  "string \<Rightarrow> string \<Rightarrow> string option \<Rightarrow> string option \<Rightarrow> BaseAgent \<Rightarrow> exc + BaseAgent" where
  "update_memory r c img call_id self =
     (if r = ''user'' then Inr (self\<lparr>memory := add_message (user_message c img) (memory self)\<rparr>)
      else if r = ''system'' then
        Inr (self\<lparr>memory := add_message (system_message c img) (memory self)\<rparr>)
      else if r = ''assistant'' then
        Inr (self\<lparr>memory := add_message (assistant_message c img) (memory self)\<rparr>)
      else if r = ''tool'' then
        (case tool_message c call_id img of
           Inl e \<Rightarrow> Inl e
         | Inr m \<Rightarrow> Inr (self\<lparr>memory := add_message m (memory self)\<rparr>))
      else Inl (ValueError (''Unsupported message role: '' @ r)))"

text \<open>\<^verbatim>\<open>is_stuck\<close>.\<close>

definition is_stuck :: "BaseAgent \<Rightarrow> bool" where
  "is_stuck self =
     (let msgs = messages (memory self) in
      if length msgs < 2 then False
      else
        let last_message = last msgs in
        if content last_message = [] then False
        else
          let duplicate_count =
                (\<Sum>msg \<leftarrow> filter (\<lambda>msg. role msg = Role_assistant
                                    \<and> content msg = content last_message)
                                 (rev (butlast msgs)). (1::int))
          in duplicate_count \<ge> duplicate_threshold self)"

text \<open>\<^verbatim>\<open>handle_stuck_state\<close>; the f-string renders a missing prompt as \<^verbatim>\<open>None\<close>.\<close>

definition stuck_prompt :: string where
  "stuck_prompt = ''        Observed duplicate responses. Consider new strategies and avoid repeating ineffective paths already attempted.''"

definition handle_stuck_state :: "BaseAgent \<Rightarrow> BaseAgent" where
  "handle_stuck_state self =
     self\<lparr>next_step_prompt :=
            Some (stuck_prompt @ newline
                  @ (case next_step_prompt self of None \<Rightarrow> ''None'' | Some p \<Rightarrow> p))\<rparr>"

text \<open>The \<^verbatim>\<open>while\<close> loop of \<^verbatim>\<open>run\<close>, with the list \<^verbatim>\<open>results\<close> it appends to.\<close>

partial_function (option) run_loop ::
  "step_fun \<Rightarrow> BaseAgent \<Rightarrow> string list \<Rightarrow> ((exc + string list) \<times> BaseAgent) option" where
  "run_loop step self results =
     (if current_step self < max_steps self \<and> state self \<noteq> FINISHED then
        (let self1 = self\<lparr>current_step := current_step self + 1\<rparr>
         in case step self1 of
              (Inl e, self2) \<Rightarrow> Some (Inl e, self2)
            | (Inr step_result, self2) \<Rightarrow>
                (let self3 = (if is_stuck self2 then handle_stuck_state self2 else self2)
                 in run_loop step self3
                      (results @ [''Step '' @ str_int (current_step self3) @ '': '' @ step_result])))
      else Some (Inr results, self))"

declare run_loop.simps [code]

text \<open>The body of the \<^verbatim>\<open>async with\<close> block: the loop and the step-budget check.\<close>

definition run_body :: "step_fun \<Rightarrow> BaseAgent \<Rightarrow> ((exc + string list) \<times> BaseAgent) option" where
  "run_body step self =
     (case run_loop step self [] of
        None \<Rightarrow> None
      | Some (Inl e, self1) \<Rightarrow> Some (Inl e, self1)
      | Some (Inr results, self1) \<Rightarrow>
          (if current_step self1 \<ge> max_steps self1 then
             Some (Inr (results @ [''Terminated: Reached max steps ('' @ str_int (max_steps self1) @ '')'']),
                   self1\<lparr>current_step := 0, state := IDLE\<rparr>)
           else Some (Inr results, self1)))"

text \<open>
  The statement \<^verbatim>\<open>if request: self.update_memory("user", request)\<close> of \<^verbatim>\<open>run\<close>:
  a request that is \<^verbatim>\<open>None\<close> or empty adds nothing.
\<close>

definition receive_request :: "string option \<Rightarrow> BaseAgent \<Rightarrow> exc + BaseAgent" where
  "receive_request request self =
     (case request of
        None \<Rightarrow> Inr self
      | Some r \<Rightarrow> if r \<noteq> [] then update_memory ''user'' r None None self else Inr self)"

text \<open>\<^verbatim>\<open>run\<close>: the raised exception or the returned summary, and the agent afterwards.\<close>

definition run :: "step_fun \<Rightarrow> string option \<Rightarrow> BaseAgent \<Rightarrow> ((exc + string) \<times> BaseAgent) option" where
  "run step request self =
     (if state self \<noteq> IDLE then Some (Inl (RuntimeError (state self)), self)
      else
        case receive_request request self of
          Inl e \<Rightarrow> Some (Inl e, self)
        | Inr self0 \<Rightarrow>
            (case state_context RUNNING (run_body step) self0 of
               None \<Rightarrow> None
             | Some (Inl e, self1) \<Rightarrow> Some (Inl e, self1)
             | Some (Inr results, self1) \<Rightarrow>
                 Some (Inr (if results \<noteq> [] then str_join newline results
                            else ''No steps executed''), self1)))"

text \<open>Step stubs and a freshly constructed agent, for the concrete runs below.\<close>

definition step_const :: "string \<Rightarrow> step_fun" where
  "step_const s self = (Inr s, self)"

definition step_finish :: "string \<Rightarrow> step_fun" where
  "step_finish s self = (Inr s, self\<lparr>state := FINISHED\<rparr>)"

definition step_raise :: "exc \<Rightarrow> step_fun" where
  "step_raise e self = (Inl e, self)"

definition new_agent :: "string \<Rightarrow> int \<Rightarrow> BaseAgent" where
  "new_agent n m =
     \<lparr>name = n, description = None, system_prompt = None, next_step_prompt = None,
      memory = \<lparr>messages = []\<rparr>, state = IDLE, max_steps = m, current_step = 0,
      duplicate_threshold = 2\<rparr>"

section \<open>Tool results\<close>

text \<open>
  \<^verbatim>\<open>ToolResult\<close>: \<^verbatim>\<open>output\<close> is \<^verbatim>\<open>Any\<close>, the other three fields are
  \<^verbatim>\<open>Optional[str]\<close>. The subclasses \<^verbatim>\<open>CLIResult\<close> and \<^verbatim>\<open>ToolFailure\<close> add
  nothing.
\<close>

record ToolResult =
  "output" :: pyval
  error :: "string option"
  base64_image :: "string option"
  system :: "string option"

text \<open>The value \<^verbatim>\<open>getattr(self, field)\<close> reads, for the names in \<^verbatim>\<open>__fields__\<close>.\<close>

definition opt_val :: "string option \<Rightarrow> pyval" where
  "opt_val x = (case x of None \<Rightarrow> PNone | Some s \<Rightarrow> PStr s)"

definition ToolResult_fields :: "string list" where
  "ToolResult_fields = [''output'', ''error'', ''base64_image'', ''system'']"

definition getattr :: "ToolResult \<Rightarrow> string \<Rightarrow> pyval" where
  "getattr self field =
     (if field = ''output'' then output self
      else if field = ''error'' then opt_val (error self)
      else if field = ''base64_image'' then opt_val (base64_image self)
      else opt_val (system self))"

text \<open>\<^verbatim>\<open>__bool__\<close>: \<^verbatim>\<open>any(getattr(self, field) for field in self.__fields__)\<close>.\<close>

definition ToolResult_bool :: "ToolResult \<Rightarrow> bool" where
  "ToolResult_bool self = list_ex (\<lambda>field. truthy (getattr self field)) ToolResult_fields"

text \<open>
  The local function \<^verbatim>\<open>combine_fields\<close> of \<^verbatim>\<open>__add__\<close>. It is applied to
  fields of two types, so the truth test and the \<^verbatim>\<open>+\<close> of the field's type are
  passed in. \<^verbatim>\<open>field or other_field\<close> is the left value when it is true and the right
  value otherwise.
\<close>

definition combine_fields ::
  "('a \<Rightarrow> bool) \<Rightarrow> ('a \<Rightarrow> 'a \<Rightarrow> exc + 'a) \<Rightarrow> 'a \<Rightarrow> 'a \<Rightarrow> bool \<Rightarrow> exc + 'a" where
  "combine_fields is_true add field other_field concatenate =
     (if is_true field \<and> is_true other_field then
        (if concatenate then add field other_field
         else Inl (ValueError ''Cannot combine tool results''))
      else Inr (if is_true field then field else other_field))"

text \<open>\<^verbatim>\<open>__add__\<close>; the keyword arguments of the constructor are evaluated in order.\<close>

definition ToolResult_add :: "ToolResult \<Rightarrow> ToolResult \<Rightarrow> exc + ToolResult" where
  "ToolResult_add self other =
     (case combine_fields truthy py_add (output self) (output other) True of
        Inl e \<Rightarrow> Inl e
      | Inr out \<Rightarrow>
     (case combine_fields truthy_opt opt_add (error self) (error other) True of
        Inl e \<Rightarrow> Inl e
      | Inr err \<Rightarrow>
     (case combine_fields truthy_opt opt_add (base64_image self) (base64_image other) False of
        Inl e \<Rightarrow> Inl e
      | Inr img \<Rightarrow>
     (case combine_fields truthy_opt opt_add (system self) (system other) True of
        Inl e \<Rightarrow> Inl e
      | Inr sys \<Rightarrow>
          Inr \<lparr>output = out, error = err, base64_image = img, system = sys\<rparr>))))"

text \<open>\<^verbatim>\<open>ToolResult()\<close>: every field at its default \<^verbatim>\<open>None\<close>.\<close>

definition empty_result :: ToolResult where
  "empty_result = \<lparr>output = PNone, error = None, base64_image = None, system = None\<rparr>"

text \<open>
  The merge of one text field of two results, case by case: both sides non-empty, the
  concatenation; otherwise the left side if it is non-empty, and the right side as it is
  if not.
\<close>

definition merged_text :: "string option \<Rightarrow> string option \<Rightarrow> string option" where
  "merged_text x y =
     (case x of
        None \<Rightarrow> y
      | Some s \<Rightarrow>
          (case y of
             None \<Rightarrow> (if s \<noteq> [] then Some s else None)
           | Some t \<Rightarrow> (if s \<noteq> [] \<and> t \<noteq> [] then Some (s @ t)
                       else if s \<noteq> [] then Some s else Some t)))"

section \<open>The schema generator\<close>

text \<open>
  Type hints. The six classes that are keys of \<^verbatim>\<open>type_mapping\<close>, any other class by its
  \<^verbatim>\<open>__name__\<close>, a \<^verbatim>\<open>BaseModel\<close> subclass by its name and the dictionary its
  \<^verbatim>\<open>model_json_schema()\<close> returns (pydantic computes it), an object that is neither a
  class nor a parametrised generic (\<^verbatim>\<open>typing.Any\<close>, \<^verbatim>\<open>None\<close>) with its
  \<^verbatim>\<open>__name__\<close> if it has one, and a parametrised generic of \<^verbatim>\<open>typing\<close>
  (\<^verbatim>\<open>List[...]\<close>, \<^verbatim>\<open>Dict[...]\<close>, \<^verbatim>\<open>Union[...]\<close>, or one with another origin)
  with its \<^verbatim>\<open>__name__\<close> if it has one and with what \<^verbatim>\<open>get_origin\<close> and
  \<^verbatim>\<open>get_args\<close> return for it. \<^verbatim>\<open>typing.Any\<close> carries the name \<^verbatim>\<open>Any\<close>.
\<close>

datatype origin = Origin_list | Origin_dict | Origin_Union | Origin_other

datatype pytype =
    T_str | T_int | T_float | T_bool | T_dict | T_list
  | T_class string
  | T_model string pyval
  | T_object "string option"
  | T_alias origin "string option" "pytype list"

definition T_Any :: pytype where
  "T_Any = T_object (Some ''Any'')"

fun get_origin :: "pytype \<Rightarrow> origin option" where
  "get_origin (T_alias orig nm args) = Some orig"
| "get_origin t = None"

fun get_args :: "pytype \<Rightarrow> pytype list" where
  "get_args (T_alias orig nm args) = args"
| "get_args t = []"

text \<open>The attribute \<^verbatim>\<open>__name__\<close> of a hint, when it has one.\<close>

fun type_name :: "pytype \<Rightarrow> string option" where
  "type_name T_str = Some ''str''"
| "type_name T_int = Some ''int''"
| "type_name T_float = Some ''float''"
| "type_name T_bool = Some ''bool''"
| "type_name T_dict = Some ''dict''"
| "type_name T_list = Some ''list''"
| "type_name (T_class n) = Some n"
| "type_name (T_model n schema) = Some n"
| "type_name (T_object nm) = nm"
| "type_name (T_alias orig nm args) = nm"

text \<open>\<^verbatim>\<open>isinstance(t, type) and issubclass(t, BaseModel)\<close>.\<close>

fun is_model :: "pytype \<Rightarrow> bool" where
  "is_model (T_model n schema) = True"
| "is_model t = False"

fun model_json_schema :: "pytype \<Rightarrow> pyval" where
  "model_json_schema (T_model n schema) = schema"
| "model_json_schema t = PNone"

text \<open>The class attribute \<^verbatim>\<open>type_mapping\<close>, and \<^verbatim>\<open>type_mapping.get(t, "string")\<close>.\<close>

fun type_mapping :: "pytype \<Rightarrow> string option" where
  "type_mapping T_str = Some ''string''"
| "type_mapping T_int = Some ''integer''"
| "type_mapping T_float = Some ''number''"
| "type_mapping T_bool = Some ''boolean''"
| "type_mapping T_dict = Some ''object''"
| "type_mapping T_list = Some ''array''"
| "type_mapping t = None"

definition type_mapping_get :: "pytype \<Rightarrow> string \<Rightarrow> string" where
  "type_mapping_get t d = (case type_mapping t of Some s \<Rightarrow> s | None \<Rightarrow> d)"

record CreateChatCompletion =
  name :: string
  description :: string
  parameters :: "pyval option"
  response_type :: pytype
  required :: "string list"

definition required_val :: "CreateChatCompletion \<Rightarrow> pyval" where
  "required_val self = PList (map PStr (required self))"

text \<open>\<^verbatim>\<open>_get_type_info\<close>.\<close>

definition get_type_info :: "pytype \<Rightarrow> pyval" where
  "get_type_info type_hint =
     (if is_model type_hint then model_json_schema type_hint
      else PDict
        [(''type'', PStr (type_mapping_get type_hint ''string'')),
         (''description'',
          PStr (''Value of type ''
                @ (case type_name type_hint of Some n \<Rightarrow> n | None \<Rightarrow> ''any'')))])"

text \<open>\<^verbatim>\<open>_create_union_schema\<close>.\<close>

definition create_union_schema :: "CreateChatCompletion \<Rightarrow> pytype list \<Rightarrow> pyval" where
  "create_union_schema self types =
     PDict
       [(''type'', PStr ''object''),
        (''properties'', PDict [(''response'', PDict [(''anyOf'', PList (map get_type_info types))])]),
        (''required'', required_val self)]"

text \<open>\<^verbatim>\<open>d[key]\<close> and \<^verbatim>\<open>d.get(key)\<close> on a dictionary value.\<close>

definition dict_get :: "pyval \<Rightarrow> string \<Rightarrow> pyval option" where
  "dict_get d k = (case d of PDict kvs \<Rightarrow> map_of kvs k | _ \<Rightarrow> None)"

text \<open>
  \<^verbatim>\<open>_build_parameters\<close> and \<^verbatim>\<open>_create_type_schema\<close> call each other: the last line
  of \<^verbatim>\<open>_create_type_schema\<close> goes back to \<^verbatim>\<open>_build_parameters\<close>. The first
  argument is the call depth that is left; at depth \<open>0\<close> the interpreter raises
  \<^verbatim>\<open>RecursionError\<close>.
\<close>

fun build_parameters :: "nat \<Rightarrow> CreateChatCompletion \<Rightarrow> exc + pyval"
  and create_type_schema :: "nat \<Rightarrow> CreateChatCompletion \<Rightarrow> pytype \<Rightarrow> exc + pyval" where
  "build_parameters 0 self = Inl RecursionError"
| "build_parameters (Suc depth) self =
     (if response_type self = T_str then
        Inr (PDict
          [(''type'', PStr ''object''),
           (''properties'', PDict [(''response'', PDict
              [(''type'', PStr ''string''),
               (''description'', PStr ''The response text that should be delivered to the user.'')])]),
           (''required'', required_val self)])
      else if is_model (response_type self) then
        (let schema = model_json_schema (response_type self)
         in case dict_get schema ''properties'' of
              None \<Rightarrow> Inl (KeyError ''properties'')
            | Some props \<Rightarrow>
                Inr (PDict
                  [(''type'', PStr ''object''),
                   (''properties'', props),
                   (''required'',
                    (case dict_get schema ''required'' of
                       Some r \<Rightarrow> r
                     | None \<Rightarrow> required_val self))]))
      else create_type_schema depth self (response_type self))"
| "create_type_schema 0 self type_hint = Inl RecursionError"
| "create_type_schema (Suc depth) self type_hint =
     (let orig = get_origin type_hint; args = get_args type_hint
      in if orig = None then
           (case type_name type_hint of
              None \<Rightarrow> Inl (AttributeError ''__name__'')
            | Some n \<Rightarrow>
                Inr (PDict
                  [(''type'', PStr ''object''),
                   (''properties'', PDict [(''response'', PDict
                      [(''type'', PStr (type_mapping_get type_hint ''string'')),
                       (''description'', PStr (''Response of type '' @ n))])]),
                   (''required'', required_val self)]))
         else if orig = Some Origin_list then
           (let item_type = (if args \<noteq> [] then hd args else T_Any)
            in Inr (PDict
                 [(''type'', PStr ''object''),
                  (''properties'', PDict [(''response'', PDict
                     [(''type'', PStr ''array''), (''items'', get_type_info item_type)])]),
                  (''required'', required_val self)]))
         else if orig = Some Origin_dict then
           (let value_type = (if length args > 1 then args ! 1 else T_Any)
            in Inr (PDict
                 [(''type'', PStr ''object''),
                  (''properties'', PDict [(''response'', PDict
                     [(''type'', PStr ''object''),
                      (''additionalProperties'', get_type_info value_type)])]),
                  (''required'', required_val self)]))
         else if orig = Some Origin_Union then Inr (create_union_schema self args)
         else build_parameters depth self)"

text \<open>
  \<^verbatim>\<open>__init__\<close>: the field defaults, then \<^verbatim>\<open>response_type\<close> and the schema built
  from it.
\<close>

definition CreateChatCompletion_init :: "nat \<Rightarrow> pytype \<Rightarrow> exc + CreateChatCompletion" where
  "CreateChatCompletion_init depth rt =
     (let self = \<lparr>name = ''create_chat_completion'',
                  description = ''Creates a structured completion with specified output formatting.'',
                  parameters = None, response_type = rt, required = [''response'']\<rparr>
      in case build_parameters depth self of
           Inl e \<Rightarrow> Inl e
         | Inr p \<Rightarrow> Inr (self\<lparr>parameters := Some p\<rparr>))"

text \<open>
  Assignment \<^verbatim>\<open>d[k] = v\<close> on an insertion-ordered dictionary, and the comprehension
  \<^verbatim>\<open>{field: kwargs.get(field, "") for field in required}\<close>.
\<close>

fun dict_set :: "(string \<times> pyval) list \<Rightarrow> string \<Rightarrow> pyval \<Rightarrow> (string \<times> pyval) list" where
  "dict_set [] k v = [(k, v)]"
| "dict_set ((k', v') # kvs) k v = (if k' = k then (k, v) # kvs else (k', v') # dict_set kvs k v)"

definition kwargs_get :: "(string \<rightharpoonup> pyval) \<Rightarrow> string \<Rightarrow> pyval \<Rightarrow> pyval" where
  "kwargs_get kwargs k d = (case kwargs k of Some v \<Rightarrow> v | None \<Rightarrow> d)"

definition required_fields_dict :: "(string \<rightharpoonup> pyval) \<Rightarrow> string list \<Rightarrow> (string \<times> pyval) list" where
  "required_fields_dict kwargs req =
     foldl (\<lambda>d field. dict_set d field (kwargs_get kwargs field (PStr []))) [] req"

text \<open>
  \<^verbatim>\<open>execute\<close>. Calling the response type (\<^verbatim>\<open>self.response_type(**kwargs)\<close> for a
  model, \<^verbatim>\<open>self.response_type(result)\<close> for the conversion) runs code of pydantic or
  of the type itself: \<open>call t args kw\<close> stands for it. The argument \<^verbatim>\<open>required\<close> is a
  list or \<^verbatim>\<open>None\<close>.
\<close>

type_synonym call_fun = "pytype \<Rightarrow> pyval list \<Rightarrow> (string \<rightharpoonup> pyval) \<Rightarrow> exc + pyval"

definition effective_required :: "CreateChatCompletion \<Rightarrow> string list option \<Rightarrow> string list" where
  "effective_required self required_arg =
     (case required_arg of
        None \<Rightarrow> required self
      | Some r \<Rightarrow> if r \<noteq> [] then r else required self)"

definition convert_result ::
  "call_fun \<Rightarrow> CreateChatCompletion \<Rightarrow> (string \<rightharpoonup> pyval) \<Rightarrow> pyval \<Rightarrow> exc + pyval" where
  "convert_result call self kwargs result =
     (if response_type self = T_str then Inr result
      else if is_model (response_type self) then call (response_type self) [] kwargs
      else if get_origin (response_type self) \<in> {Some Origin_list, Some Origin_dict} then Inr result
      else
        (case call (response_type self) [result] Map.empty of
           Inl (ValueError m) \<Rightarrow> Inr result
         | Inl (TypeError m) \<Rightarrow> Inr result
         | r \<Rightarrow> r))"

definition execute ::
  "call_fun \<Rightarrow> CreateChatCompletion \<Rightarrow> string list option \<Rightarrow> (string \<rightharpoonup> pyval) \<Rightarrow> exc + pyval" where
  "execute call self required_arg kwargs =
     (let req = effective_required self required_arg
      in if length req > 0 then
           (if length req = 1 then
              (let required_field = hd req;
                   result = kwargs_get kwargs required_field (PStr [])
               in convert_result call self kwargs result)
            else Inr (PDict (required_fields_dict kwargs req)))
         else
           (let required_field = ''response'';
                result = kwargs_get kwargs required_field (PStr [])
            in convert_result call self kwargs result))"

text \<open>The tool as \<^verbatim>\<open>CreateChatCompletion(int)\<close> builds it, for the concrete calls below.\<close>

definition int_tool :: CreateChatCompletion where
  "int_tool =
     \<lparr>name = ''create_chat_completion'',
      description = ''Creates a structured completion with specified output formatting.'',
      parameters = Some (PDict
        [(''type'', PStr ''object''),
         (''properties'', PDict [(''response'', PDict
            [(''type'', PStr ''integer''),
             (''description'', PStr ''Response of type int'')])]),
         (''required'', PList [PStr ''response''])]),
      response_type = T_int, required = [''response'']\<rparr>"

section \<open>Rendering of numbers and lines\<close>

text \<open>A rendered integer holds no line break, so it never splits a line of the summary.\<close>

lemma digit_char_not_newline: "d < 10 \<Longrightarrow> digit_char d \<noteq> CHR 0x0A"
proof -
  assume "d < 10"
  then have "digit_char d \<in> set ''0123456789''"
    unfolding digit_char_def by (intro nth_mem) simp
  then show ?thesis by auto
qed

lemma str_nat_no_newline: "CHR 0x0A \<notin> set (str_nat n)"
proof (induction n rule: str_nat.induct)
  case (1 n)
  show ?case
  proof (cases "n < 10")
    case True
    then show ?thesis
      using digit_char_not_newline [of n] by (simp add: str_nat.simps [of n])
  next
    case False
    have "n mod 10 < 10" by simp
    then have "digit_char (n mod 10) \<noteq> CHR 0x0A" by (rule digit_char_not_newline)
    with False 1 show ?thesis
      by (auto simp add: str_nat.simps [of n])
  qed
qed

lemma str_int_no_newline: "CHR 0x0A \<notin> set (str_int i)"
  by (simp add: str_int_def str_nat_no_newline)

lemma str_join_snoc:
  "str_join sep (xs @ [t]) = (if xs = [] then t else str_join sep xs @ sep @ t)"
  by (induction sep xs rule: str_join.induct) auto

lemma takeWhile_all: "\<forall>x\<in>set xs. P x \<Longrightarrow> takeWhile P (xs @ ys) = xs @ takeWhile P ys"
  by (induction xs) auto

lemma last_line_append:
  assumes "CHR 0x0A \<notin> set t"
  shows "last_line (s @ newline @ t) = t"
proof -
  have "\<forall>x\<in>set (rev t). x \<noteq> CHR 0x0A" using assms by auto
  then have "takeWhile (\<lambda>c. c \<noteq> CHR 0x0A) (rev t @ CHR 0x0A # rev s) = rev t"
    by (simp add: takeWhile_all)
  then show ?thesis by (simp add: last_line_def newline_def)
qed

lemma last_line_single:
  assumes "CHR 0x0A \<notin> set t"
  shows "last_line t = t"
proof -
  have "takeWhile (\<lambda>c. c \<noteq> CHR 0x0A) (rev t) = rev t"
    using assms by (subst takeWhile_eq_all_conv) auto
  then show ?thesis unfolding last_line_def by (simp only: rev_rev_ident)
qed

lemma last_line_join_snoc:
  "CHR 0x0A \<notin> set t \<Longrightarrow> last_line (str_join newline (rs @ [t])) = t"
  by (simp add: str_join_snoc last_line_append last_line_single)

section \<open>The loop, step by step\<close>

lemma handle_stuck_state_fields [simp]:
  "state (handle_stuck_state a) = state a"
  "current_step (handle_stuck_state a) = current_step a"
  "max_steps (handle_stuck_state a) = max_steps a"
  "memory (handle_stuck_state a) = memory a"
  "duplicate_threshold (handle_stuck_state a) = duplicate_threshold a"
  by (simp_all add: handle_stuck_state_def)

lemma receive_request_user:
  "\<exists>self0. receive_request request self = Inr self0 \<and> state self0 = state self
     \<and> max_steps self0 = max_steps self \<and> current_step self0 = current_step self"
  by (cases request) (simp_all add: receive_request_def update_memory_def)

lemma run_loop_exit:
  "\<not> (current_step a < max_steps a \<and> state a \<noteq> FINISHED) \<Longrightarrow> run_loop step a rs = Some (Inr rs, a)"
  by (subst run_loop.simps) auto

lemma run_loop_iter:
  assumes "current_step a < max_steps a" and "state a \<noteq> FINISHED"
    and "step (a\<lparr>current_step := current_step a + 1\<rparr>) = (Inr r, a2)"
  shows "run_loop step a rs =
         run_loop step (if is_stuck a2 then handle_stuck_state a2 else a2)
           (rs @ [''Step '' @ str_int (current_step a2) @ '': '' @ r])"
  using assms by (subst run_loop.simps) (simp add: Let_def)

lemma run_loop_raise:
  assumes "current_step a < max_steps a" and "state a \<noteq> FINISHED"
    and "step (a\<lparr>current_step := current_step a + 1\<rparr>) = (Inl e, a2)"
  shows "run_loop step a rs = Some (Inl e, a2)"
  using assms by (subst run_loop.simps) (simp add: Let_def)

lemma run_loop_budget:
  assumes ret: "\<And>x. fst (step x) = Inr s"
    and nofin: "\<And>x. state x \<noteq> FINISHED \<Longrightarrow> state (snd (step x)) \<noteq> FINISHED"
    and cur: "\<And>x. current_step (snd (step x)) = current_step x"
    and mx: "\<And>x. max_steps (snd (step x)) = max_steps x"
  shows "state a \<noteq> FINISHED \<Longrightarrow>
         \<exists>rs a'. run_loop step a results = Some (Inr rs, a') \<and> max_steps a' = max_steps a
                  \<and> max_steps a' \<le> current_step a'"
proof (induction "nat (max_steps a - current_step a)" arbitrary: a results rule: less_induct)
  case less
  show ?case
  proof (cases "current_step a < max_steps a")
    case False
    then show ?thesis by (simp add: run_loop_exit)
  next
    case True
    define a1 where "a1 = a\<lparr>current_step := current_step a + 1\<rparr>"
    define a2 where "a2 = snd (step a1)"
    define a3 where "a3 = (if is_stuck a2 then handle_stuck_state a2 else a2)"
    have st: "step a1 = (Inr s, a2)"
      using ret [of a1] by (simp add: a2_def prod_eq_iff)
    have a3: "state a3 \<noteq> FINISHED" "current_step a3 = current_step a + 1" "max_steps a3 = max_steps a"
      using nofin [of a1] cur [of a1] mx [of a1] less.prems by (simp_all add: a3_def a2_def a1_def)
    have a2c: "current_step a2 = current_step a + 1"
      using cur [of a1] by (simp add: a2_def a1_def)
    have eq: "run_loop step a results =
              run_loop step a3 (results @ [''Step '' @ str_int (current_step a2) @ '': '' @ s])"
      using run_loop_iter [OF True less.prems] st unfolding a1_def a3_def by simp
    have "nat (max_steps a3 - current_step a3) < nat (max_steps a - current_step a)"
      using True a3 by simp
    from less.hyps [OF this a3(1)] a3 eq show ?thesis by simp
  qed
qed

text \<open>
  When the loop ends normally, either no iteration ran (and then its condition was false
  at once) or the list of records has grown.
\<close>

lemma run_loop_results_aux:
  assumes "run_loop step self results = Some y"
  shows "case y of
           (Inl e, a) \<Rightarrow> True
         | (Inr rs, a) \<Rightarrow>
             (rs = results \<and> a = self
              \<and> \<not> (current_step self < max_steps self \<and> state self \<noteq> FINISHED))
             \<or> length results < length rs"
proof (rule run_loop.raw_induct
    [where P = "\<lambda>step self results y. case y of
           (Inl e, a) \<Rightarrow> True
         | (Inr rs, a) \<Rightarrow>
             (rs = results \<and> a = self
              \<and> \<not> (current_step self < max_steps self \<and> state self \<noteq> FINISHED))
             \<or> length results < length rs", OF _ assms], goal_cases)
  case (1 run_loop step self results y)
  show ?case
  proof (cases "current_step self < max_steps self \<and> state self \<noteq> FINISHED")
    case False
    with 1(2) show ?thesis by auto
  next
    case True
    obtain r a2 where st: "step (self\<lparr>current_step := current_step self + 1\<rparr>) = (r, a2)"
      by (cases "step (self\<lparr>current_step := current_step self + 1\<rparr>)")
    show ?thesis
    proof (cases r)
      case (Inl e)
      with 1(2) True st show ?thesis by (auto simp add: Let_def)
    next
      case (Inr s)
      define a3 where "a3 = (if is_stuck a2 then handle_stuck_state a2 else a2)"
      from Inr 1(2) True st have
        "run_loop step a3 (results @ [''Step '' @ str_int (current_step a3) @ '': '' @ s]) = Some y"
        by (simp add: Let_def a3_def)
      from 1(1) [OF this] show ?thesis
        by (auto split: prod.splits sum.splits)
    qed
  qed
qed

lemma run_loop_results:
  assumes "run_loop step self results = Some (Inr rs, self')"
  shows "(rs = results \<and> self' = self
          \<and> \<not> (current_step self < max_steps self \<and> state self \<noteq> FINISHED))
         \<or> length results < length rs"
  using run_loop_results_aux [OF assms] by simp

section \<open>Properties of the agent loop\<close>

text \<open>
  C1. When a call of \<^verbatim>\<open>step\<close> inside the loop raises \<open>e\<close>, \<^verbatim>\<open>run\<close> raises
  \<open>e\<close> to its caller, and the agent it leaves behind is the one the failing step left,
  with the state set back to \<^verbatim>\<open>IDLE\<close>: the \<^verbatim>\<open>except\<close> clause of
  \<^verbatim>\<open>state_context\<close> writes \<^verbatim>\<open>ERROR\<close>, and the \<^verbatim>\<open>finally\<close> clause then
  writes the previous state over it.
\<close>

theorem run_step_exception_restores_state:
  assumes "state self = IDLE"
    and "receive_request request self = Inr self0"
    and "run_loop step (self0\<lparr>state := RUNNING\<rparr>) [] = Some (Inl e, self2)"
  shows "run step request self = Some (Inl e, self2\<lparr>state := IDLE\<rparr>)"
proof -
  have "state self0 = IDLE"
    using receive_request_user [of request self] assms(1,2) by auto
  then show ?thesis
    using assms by (simp add: run_def state_context_def run_body_def)
qed

text \<open>A request followed by a step that raises: the message is kept, the state is \<^verbatim>\<open>IDLE\<close>.\<close>

theorem run_step_exception_restores_state_witness:
  "state (new_agent ''agent'' 3) = IDLE
   \<and> receive_request (Some ''hi'') (new_agent ''agent'' 3)
       = Inr ((new_agent ''agent'' 3)\<lparr>memory := \<lparr>messages = [user_message ''hi'' None]\<rparr>\<rparr>)
   \<and> run_loop (step_raise (StepFailure ''boom''))
        ((new_agent ''agent'' 3)\<lparr>memory := \<lparr>messages = [user_message ''hi'' None]\<rparr>, state := RUNNING\<rparr>) []
       = Some (Inl (StepFailure ''boom''),
               (new_agent ''agent'' 3)\<lparr>memory := \<lparr>messages = [user_message ''hi'' None]\<rparr>,
                                       state := RUNNING, current_step := 1\<rparr>)
   \<and> run (step_raise (StepFailure ''boom'')) (Some ''hi'') (new_agent ''agent'' 3)
       = Some (Inl (StepFailure ''boom''),
               (new_agent ''agent'' 3)\<lparr>memory := \<lparr>messages = [user_message ''hi'' None]\<rparr>,
                                       state := IDLE, current_step := 1\<rparr>)"
proof -
  let ?a = "new_agent ''agent'' 3"
  let ?b = "?a\<lparr>memory := \<lparr>messages = [user_message ''hi'' None]\<rparr>\<rparr>"
  let ?c = "?a\<lparr>memory := \<lparr>messages = [user_message ''hi'' None]\<rparr>, state := RUNNING, current_step := 1\<rparr>"
  have h1: "state ?a = IDLE" by (simp add: new_agent_def)
  have h2: "receive_request (Some ''hi'') ?a = Inr ?b"
    by (simp add: receive_request_def update_memory_def add_message_def new_agent_def)
  have h3: "run_loop (step_raise (StepFailure ''boom'')) (?b\<lparr>state := RUNNING\<rparr>) []
            = Some (Inl (StepFailure ''boom''), ?c)"
    by (simp add: run_loop.simps step_raise_def new_agent_def)
  from run_step_exception_restores_state [OF h1 h2 h3] h1 h2 h3 show ?thesis
    by (simp add: new_agent_def)
qed

text \<open>
  A step that raises at once, on a fresh agent: the exception reaches the caller, and the
  agent is back in \<^verbatim>\<open>IDLE\<close>, not in \<^verbatim>\<open>ERROR\<close>.
\<close>

theorem run_step_exception_counterexample:
  "run (step_raise (StepFailure ''boom'')) None (new_agent ''agent'' 3)
     = Some (Inl (StepFailure ''boom''), (new_agent ''agent'' 3)\<lparr>current_step := 1\<rparr>)
   \<and> state ((new_agent ''agent'' 3)\<lparr>current_step := 1\<rparr>) = IDLE
   \<and> state ((new_agent ''agent'' 3)\<lparr>current_step := 1\<rparr>) \<noteq> ERROR"
  by (simp add: run_def receive_request_def state_context_def run_body_def run_loop.simps
        step_raise_def new_agent_def)

text \<open>
  C2. For an idle agent with \<^verbatim>\<open>max_steps = 0\<close> and a step counter that is not
  negative, the loop body never runs and \<^verbatim>\<open>run\<close> returns the termination record
  \<^verbatim>\<open>Terminated: Reached max steps (0)\<close>: the budget check after the loop appends it
  before the summary is built, so the list of records is not empty.
\<close>

theorem run_max_steps_zero:
  assumes "state self = IDLE" and "max_steps self = 0" and "0 \<le> current_step self"
  shows "\<exists>self'. run step request self = Some (Inr ''Terminated: Reached max steps (0)'', self')
           \<and> state self' = IDLE \<and> current_step self' = 0"
proof -
  obtain self0 where r: "receive_request request self = Inr self0" "state self0 = IDLE"
      "max_steps self0 = 0" "current_step self0 = current_step self"
    using receive_request_user [of request self] assms by auto
  have z: "str_int 0 = ''0''" by code_simp
  have "run_loop step (self0\<lparr>state := RUNNING\<rparr>) [] = Some (Inr [], self0\<lparr>state := RUNNING\<rparr>)"
    using r assms by (intro run_loop_exit) simp
  then show ?thesis
    using assms r by (simp add: run_def state_context_def run_body_def z)
qed

text \<open>A budget of zero, a counter of five and a request.\<close>

theorem run_max_steps_zero_witness:
  "state ((new_agent ''agent'' 0)\<lparr>current_step := 5\<rparr>) = IDLE
   \<and> max_steps ((new_agent ''agent'' 0)\<lparr>current_step := 5\<rparr>) = 0
   \<and> 0 \<le> current_step ((new_agent ''agent'' 0)\<lparr>current_step := 5\<rparr>)
   \<and> (\<exists>self'. run (step_const ''x'') (Some ''go'') ((new_agent ''agent'' 0)\<lparr>current_step := 5\<rparr>)
                 = Some (Inr ''Terminated: Reached max steps (0)'', self')
               \<and> state self' = IDLE \<and> current_step self' = 0)"
  using run_max_steps_zero [of "(new_agent ''agent'' 0)\<lparr>current_step := 5\<rparr>" "step_const ''x''" "Some ''go''"]
  by (simp add: new_agent_def)

text \<open>A fresh agent with a budget of zero steps does not return \<^verbatim>\<open>No steps executed\<close>.\<close>

theorem run_max_steps_zero_counterexample:
  "run (step_const ''x'') None (new_agent ''agent'' 0)
     = Some (Inr ''Terminated: Reached max steps (0)'', new_agent ''agent'' 0)
   \<and> ''Terminated: Reached max steps (0)'' \<noteq> ''No steps executed''"
  by (simp add: run_def receive_request_def state_context_def run_body_def run_loop.simps
        new_agent_def str_int_def str_nat.simps digit_char_def)

text \<open>
  C3. Let \<^verbatim>\<open>step\<close> set the state to \<^verbatim>\<open>FINISHED\<close> and return \<^verbatim>\<open>done\<close>, and let
  the agent be idle with a step counter of 0. With \<^verbatim>\<open>max_steps = 1\<close> the summary has two
  lines, \<^verbatim>\<open>Step 1: done\<close> and \<^verbatim>\<open>Terminated: Reached max steps (1)\<close>, since the
  counter has reached the budget when the loop ends; with a larger budget the summary is
  the single line \<^verbatim>\<open>Step 1: done\<close>. In both cases the agent is \<^verbatim>\<open>IDLE\<close> afterwards.
\<close>

theorem run_finish_on_first_step:
  assumes "state self = IDLE" and "current_step self = 0" and "1 \<le> max_steps self"
  shows "\<exists>self'. run (step_finish ''done'') request self =
           Some (Inr (if max_steps self = 1
                      then ''Step 1: done'' @ newline @ ''Terminated: Reached max steps (1)''
                      else ''Step 1: done''), self')
           \<and> state self' = IDLE"
proof -
  obtain self0 where r: "receive_request request self = Inr self0" "state self0 = IDLE"
      "max_steps self0 = max_steps self" "current_step self0 = 0"
    using receive_request_user [of request self] assms by auto
  define a where "a = self0\<lparr>state := RUNNING\<rparr>"
  define a2 where "a2 = a\<lparr>current_step := 1, state := FINISHED\<rparr>"
  define a3 where "a3 = (if is_stuck a2 then handle_stuck_state a2 else a2)"
  have one: "str_int 1 = ''1''" by code_simp
  have a3: "state a3 = FINISHED" "current_step a3 = 1" "max_steps a3 = max_steps self"
    using r by (simp_all add: a3_def a2_def a_def)
  have st: "step_finish ''done'' (a\<lparr>current_step := current_step a + 1\<rparr>) = (Inr ''done'', a2)"
    using r by (simp add: step_finish_def a2_def a_def)
  have c: "current_step a < max_steps a" "state a \<noteq> FINISHED"
    using r assms by (simp_all add: a_def)
  have "run_loop (step_finish ''done'') a [] = run_loop (step_finish ''done'') a3 [''Step 1: done'']"
    using run_loop_iter [where step = "step_finish ''done''" and a = a and r = "''done''"
                           and ?a2.0 = a2 and rs = "[]"] c st
    by (simp add: a3_def a2_def one)
  also have "\<dots> = Some (Inr [''Step 1: done''], a3)"
    using a3 by (intro run_loop_exit) simp
  finally have l: "run_loop (step_finish ''done'') (self0\<lparr>state := RUNNING\<rparr>) [] = Some (Inr [''Step 1: done''], a3)"
    by (simp add: a_def)
  show ?thesis
    using assms r l a3 by (auto simp add: run_def state_context_def run_body_def one)
qed

text \<open>Budgets of one and of five steps.\<close>

theorem run_finish_on_first_step_witness:
  "state (new_agent ''agent'' 1) = IDLE \<and> current_step (new_agent ''agent'' 1) = 0
   \<and> 1 \<le> max_steps (new_agent ''agent'' 1)
   \<and> (\<exists>self'. run (step_finish ''done'') None (new_agent ''agent'' 1)
                 = Some (Inr (''Step 1: done'' @ newline @ ''Terminated: Reached max steps (1)''), self')
               \<and> state self' = IDLE)
   \<and> (\<exists>self'. run (step_finish ''done'') None (new_agent ''agent'' 5)
                 = Some (Inr ''Step 1: done'', self') \<and> state self' = IDLE)"
  using run_finish_on_first_step [of "new_agent ''agent'' 1" None]
        run_finish_on_first_step [of "new_agent ''agent'' 5" None]
  by (simp add: new_agent_def)

text \<open>With a budget of one step the summary is not the single line \<^verbatim>\<open>Step 1: done\<close>.\<close>

theorem run_finish_on_first_step_counterexample:
  "run (step_finish ''done'') None (new_agent ''agent'' 1)
     = Some (Inr (''Step 1: done'' @ newline @ ''Terminated: Reached max steps (1)''),
             new_agent ''agent'' 1)
   \<and> ''Step 1: done'' @ newline @ ''Terminated: Reached max steps (1)'' \<noteq> ''Step 1: done''"
  by (simp add: run_def receive_request_def state_context_def run_body_def run_loop.simps
        step_finish_def is_stuck_def new_agent_def str_int_def str_nat.simps digit_char_def newline_def)

text \<open>
  C4. Let \<^verbatim>\<open>step\<close> always return the same string \<open>s\<close>, never move the agent to
  \<^verbatim>\<open>FINISHED\<close> and leave \<^verbatim>\<open>current_step\<close> and \<^verbatim>\<open>max_steps\<close> alone (it may
  change anything else, memory included). Then \<^verbatim>\<open>run\<close> on an idle agent with
  \<^verbatim>\<open>max_steps = N\<close> returns a summary, and afterwards \<^verbatim>\<open>current_step\<close> is 0, the
  state is \<^verbatim>\<open>IDLE\<close> and the last line of the summary is
  \<^verbatim>\<open>Terminated: Reached max steps (N)\<close>. This holds for every \<open>N\<close>, in particular for
  \<open>N \<ge> 1\<close>.
\<close>

theorem run_budget_exhausted:
  assumes idle: "state self = IDLE"
    and ret: "\<And>x. fst (step x) = Inr s"
    and nofin: "\<And>x. state x \<noteq> FINISHED \<Longrightarrow> state (snd (step x)) \<noteq> FINISHED"
    and cur: "\<And>x. current_step (snd (step x)) = current_step x"
    and mx: "\<And>x. max_steps (snd (step x)) = max_steps x"
  shows "\<exists>summary self'. run step request self = Some (Inr summary, self')
           \<and> current_step self' = 0 \<and> state self' = IDLE
           \<and> last_line summary = ''Terminated: Reached max steps ('' @ str_int (max_steps self) @ '')''"
proof -
  obtain self0 where r: "receive_request request self = Inr self0" "state self0 = IDLE"
      "max_steps self0 = max_steps self"
    using receive_request_user [of request self] idle by auto
  have "state (self0\<lparr>state := RUNNING\<rparr>) \<noteq> FINISHED" by simp
  from run_loop_budget [OF ret nofin cur mx this, of "[]"]
  obtain rs a' where l: "run_loop step (self0\<lparr>state := RUNNING\<rparr>) [] = Some (Inr rs, a')"
      "max_steps a' = max_steps self0" "max_steps a' \<le> current_step a'"
    by auto
  let ?t = "''Terminated: Reached max steps ('' @ str_int (max_steps self) @ '')''"
  have nl: "CHR 0x0A \<notin> set ?t" by (simp add: str_int_no_newline)
  have "run step request self =
        Some (Inr (str_join newline (rs @ [?t])), a'\<lparr>current_step := 0, state := IDLE\<rparr>)"
    using idle r l by (simp add: run_def state_context_def run_body_def)
  then show ?thesis using last_line_join_snoc [OF nl, of rs] by simp
qed

lemma str_int_3: "str_int 3 = ''3''" by code_simp

text \<open>The stub that returns \<^verbatim>\<open>ok\<close> and changes nothing, with a budget of three steps.\<close>

theorem run_budget_exhausted_witness:
  "state (new_agent ''agent'' 3) = IDLE
   \<and> (\<exists>summary self'.
         run (step_const ''ok'') (Some ''go'') (new_agent ''agent'' 3) = Some (Inr summary, self')
         \<and> current_step self' = 0 \<and> state self' = IDLE
         \<and> last_line summary = ''Terminated: Reached max steps (3)'')"
  using run_budget_exhausted [of "new_agent ''agent'' 3" "step_const ''ok''" "''ok''" "Some ''go''"]
  by (simp add: new_agent_def step_const_def str_int_3)

text \<open>
  C5. An agent whose state is not \<^verbatim>\<open>IDLE\<close> cannot be run: with or without a request,
  \<^verbatim>\<open>run\<close> raises its \<^verbatim>\<open>RuntimeError\<close> and the agent is returned as it was, so
  \<^verbatim>\<open>current_step\<close>, memory and state are unchanged; the result does not depend on
  \<^verbatim>\<open>step\<close>, which is never called.
\<close>

theorem run_not_idle_fails:
  "state self \<noteq> IDLE \<Longrightarrow> run step request self = Some (Inl (RuntimeError (state self)), self)"
  by (simp add: run_def)

theorem run_not_idle_fails_witness:
  "state ((new_agent ''a'' 3)\<lparr>state := FINISHED\<rparr>) \<noteq> IDLE
   \<and> run (step_const ''x'') (Some ''hello'') ((new_agent ''a'' 3)\<lparr>state := FINISHED\<rparr>)
       = Some (Inl (RuntimeError FINISHED), (new_agent ''a'' 3)\<lparr>state := FINISHED\<rparr>)"
  using run_not_idle_fails [of "(new_agent ''a'' 3)\<lparr>state := FINISHED\<rparr>" "step_const ''x''" "Some ''hello''"]
  by (simp add: new_agent_def)

subsection \<open>Every run of an idle agent\<close>

text \<open>
  However \<^verbatim>\<open>run\<close> ends, by a summary or by an exception, it leaves an agent that
  started in \<^verbatim>\<open>IDLE\<close> in \<^verbatim>\<open>IDLE\<close>.
\<close>

lemma run_leaves_idle:
  assumes "state self = IDLE" and "run step request self = Some (res, self')"
  shows "state self' = IDLE"
proof -
  obtain self0 where r: "receive_request request self = Inr self0" "state self0 = IDLE"
    using receive_request_user [of request self] assms(1) by auto
  show ?thesis
    using assms r
    by (auto simp add: run_def state_context_def Let_def split: option.splits sum.splits prod.splits)
qed

text \<open>
  A summary that \<^verbatim>\<open>run\<close> returns is always the join of at least one record: a run
  without any iteration has met its budget and carries the termination record. The branch
  that returns \<^verbatim>\<open>No steps executed\<close> is never taken.
\<close>

lemma run_summary_has_records:
  assumes "state self = IDLE" and "run step request self = Some (Inr summary, self')"
  shows "\<exists>results. results \<noteq> [] \<and> summary = str_join newline results"
proof -
  obtain self0 where r: "receive_request request self = Inr self0" "state self0 = IDLE"
    using receive_request_user [of request self] assms(1) by auto
  let ?a = "self0\<lparr>state := RUNNING\<rparr>"
  from assms r obtain rs a1 where b: "run_body step ?a = Some (Inr rs, a1)"
    and s: "summary = (if rs \<noteq> [] then str_join newline rs else ''No steps executed'')"
    by (auto simp add: run_def state_context_def Let_def split: option.splits sum.splits prod.splits)
  from b obtain rs0 a0 where l: "run_loop step ?a [] = Some (Inr rs0, a0)"
    and rs: "rs = (if max_steps a0 \<le> current_step a0
                   then rs0 @ [''Terminated: Reached max steps ('' @ str_int (max_steps a0) @ '')'']
                   else rs0)"
    by (auto simp add: run_body_def split: option.splits sum.splits prod.splits if_splits)
  from run_loop_results [OF l] have "rs \<noteq> []"
    unfolding rs by auto
  with s show ?thesis by auto
qed

section \<open>Stuck detection\<close>

lemma is_stuck_count:
  "is_stuck self \<longleftrightarrow>
     2 \<le> length (messages (memory self))
     \<and> content (last (messages (memory self))) \<noteq> []
     \<and> duplicate_threshold self
         \<le> int (length (filter (\<lambda>m. role m = Role_assistant
                                      \<and> content m = content (last (messages (memory self))))
                                (butlast (messages (memory self)))))"
  by (auto simp add: is_stuck_def Let_def sum_list_triv simp flip: rev_filter)

text \<open>
  C6. \<^verbatim>\<open>is_stuck\<close> is true exactly when memory holds at least two messages, the content
  of the last message is not empty, and the number of messages before the last one that
  have role assistant and the content of the last message reaches
  \<^verbatim>\<open>duplicate_threshold\<close>. So it is false with fewer than two messages, and also when the
  last content is empty. In particular it is true when memory holds at least two messages
  and ends in more than \<^verbatim>\<open>duplicate_threshold\<close> assistant messages that all carry the
  same non-empty content: the last one and at least \<^verbatim>\<open>duplicate_threshold\<close> before it.
\<close>

theorem is_stuck_characterisation:
  "(is_stuck self \<longleftrightarrow>
     2 \<le> length (messages (memory self))
     \<and> content (last (messages (memory self))) \<noteq> []
     \<and> duplicate_threshold self
         \<le> int (length (filter (\<lambda>m. role m = Role_assistant
                                      \<and> content m = content (last (messages (memory self))))
                                (butlast (messages (memory self))))))
   \<and> (messages (memory self) = earlier @ trailing \<and> trailing \<noteq> []
        \<and> (\<forall>m \<in> set trailing. role m = Role_assistant \<and> content m = c)
        \<and> c \<noteq> [] \<and> 2 \<le> length (earlier @ trailing)
        \<and> duplicate_threshold self < int (length trailing)
       \<longrightarrow> is_stuck self)"
proof (intro conjI impI)
  show "is_stuck self \<longleftrightarrow>
     2 \<le> length (messages (memory self))
     \<and> content (last (messages (memory self))) \<noteq> []
     \<and> duplicate_threshold self
         \<le> int (length (filter (\<lambda>m. role m = Role_assistant
                                      \<and> content m = content (last (messages (memory self))))
                                (butlast (messages (memory self)))))"
    by (rule is_stuck_count)
next
  assume h: "messages (memory self) = earlier @ trailing \<and> trailing \<noteq> []
        \<and> (\<forall>m \<in> set trailing. role m = Role_assistant \<and> content m = c)
        \<and> c \<noteq> [] \<and> 2 \<le> length (earlier @ trailing)
        \<and> duplicate_threshold self < int (length trailing)"
  let ?P = "\<lambda>m. role m = Role_assistant \<and> content m = c"
  from h have ms: "messages (memory self) = earlier @ trailing" by simp
  from h have allP: "\<forall>m \<in> set trailing. ?P m" by simp
  from h have ne: "trailing \<noteq> []" by simp
  show "is_stuck self"
  proof -
    from ne have lst: "last (earlier @ trailing) = last trailing" by simp
    have "last trailing \<in> set trailing" using ne by simp
    then have cl: "content (last trailing) = c" using allP by blast
    have bl: "butlast (earlier @ trailing) = earlier @ butlast trailing"
      using ne by (simp add: butlast_append)
    have "\<forall>m \<in> set (butlast trailing). ?P m"
      using allP by (meson in_set_butlastD)
    then have "filter ?P (butlast trailing) = butlast trailing"
      by (simp add: filter_id_conv)
    then have "length (butlast trailing) \<le> length (filter ?P (earlier @ butlast trailing))"
      by simp
    moreover have "duplicate_threshold self \<le> int (length (butlast trailing))"
    proof -
      from ne obtain x xs where "trailing = x # xs" by (cases trailing) auto
      then have "int (length (butlast trailing)) = int (length trailing) - 1"
        by simp
      with h show ?thesis by linarith
    qed
    ultimately have "duplicate_threshold self \<le> int (length (filter ?P (earlier @ butlast trailing)))"
      by linarith
    then show ?thesis
      using h by (simp add: is_stuck_count ms lst cl bl)
  qed
qed

text \<open>Threshold 2 and the three assistant messages A, A, A: stuck.\<close>

theorem is_stuck_characterisation_witness:
  "is_stuck ((new_agent ''agent'' 10)\<lparr>memory := \<lparr>messages =
      [assistant_message ''A'' None, assistant_message ''A'' None, assistant_message ''A'' None]\<rparr>\<rparr>)"
  using is_stuck_characterisation [of "(new_agent ''agent'' 10)\<lparr>memory := \<lparr>messages =
      [assistant_message ''A'' None, assistant_message ''A'' None, assistant_message ''A'' None]\<rparr>\<rparr>"
      "[]" "[assistant_message ''A'' None, assistant_message ''A'' None, assistant_message ''A'' None]" "''A''"]
  by (simp add: new_agent_def assistant_message_def)

text \<open>
  Two memories, with threshold 2. Three assistant messages with empty content: two earlier
  messages equal the last one, yet the agent is not stuck. The messages A, A, a user
  message, A: the last message follows a user message, so no duplicate trails it, yet the
  agent is stuck, because the count runs over all earlier messages.
\<close>

theorem is_stuck_counterexample:
  "\<not> is_stuck ((new_agent ''agent'' 10)\<lparr>memory := \<lparr>messages =
      [assistant_message [] None, assistant_message [] None, assistant_message [] None]\<rparr>\<rparr>)
   \<and> is_stuck ((new_agent ''agent'' 10)\<lparr>memory := \<lparr>messages =
      [assistant_message ''A'' None, assistant_message ''A'' None, user_message ''B'' None,
       assistant_message ''A'' None]\<rparr>\<rparr>)"
  by (simp add: is_stuck_def new_agent_def assistant_message_def user_message_def)

section \<open>Properties of tool results\<close>

lemma combine_fields_opt:
  "combine_fields truthy_opt opt_add x y True = Inr (merged_text x y)"
  by (cases x; cases y) (auto simp add: combine_fields_def merged_text_def)

lemma truthy_opt_val [simp]: "truthy (opt_val x) = truthy_opt x"
  by (cases x) (simp_all add: opt_val_def)

lemma combine_fields_val:
  "combine_fields truthy py_add (opt_val x) (opt_val y) True = Inr (opt_val (merged_text x y))"
  by (cases x; cases y) (auto simp add: combine_fields_def merged_text_def opt_val_def)

lemma combine_fields_image:
  "combine_fields truthy_opt opt_add x y False =
     (if truthy_opt x \<and> truthy_opt y then Inl (ValueError ''Cannot combine tool results'')
      else Inr (if truthy_opt x then x else y))"
  by (simp add: combine_fields_def)

text \<open>
  C7. Take two results whose \<^verbatim>\<open>output\<close> is text or \<^verbatim>\<open>None\<close>. If both have a
  non-empty \<^verbatim>\<open>base64_image\<close>, adding them raises the \<^verbatim>\<open>ValueError\<close> and gives no
  result. Otherwise the sum exists; each of \<^verbatim>\<open>output\<close>, \<^verbatim>\<open>error\<close> and
  \<^verbatim>\<open>system\<close> is the left text followed by the right text when both are non-empty, and
  else the left value if it is non-empty and the right value as it is if not; the image is
  the left one if it is non-empty and the right one if not.
\<close>

theorem ToolResult_add_text:
  assumes "output a = opt_val oa" and "output b = opt_val ob"
  shows "ToolResult_add a b =
     (if truthy_opt (base64_image a) \<and> truthy_opt (base64_image b)
      then Inl (ValueError ''Cannot combine tool results'')
      else Inr \<lparr>output = opt_val (merged_text oa ob),
                error = merged_text (error a) (error b),
                base64_image = (if truthy_opt (base64_image a) then base64_image a
                                else base64_image b),
                system = merged_text (system a) (system b)\<rparr>)"
  using assms
  by (simp add: ToolResult_add_def combine_fields_opt combine_fields_val combine_fields_image)

text \<open>
  Output x plus output y is output xy; error e plus the empty result keeps error e; two
  images raise.
\<close>

theorem ToolResult_add_text_witness:
  "ToolResult_add (empty_result\<lparr>output := PStr ''x''\<rparr>) (empty_result\<lparr>output := PStr ''y''\<rparr>)
     = Inr (empty_result\<lparr>output := PStr ''xy''\<rparr>)
   \<and> ToolResult_add (empty_result\<lparr>error := Some ''e''\<rparr>) empty_result
     = Inr (empty_result\<lparr>error := Some ''e''\<rparr>)
   \<and> ToolResult_add (empty_result\<lparr>base64_image := Some ''p1''\<rparr>) (empty_result\<lparr>base64_image := Some ''p2''\<rparr>)
     = Inl (ValueError ''Cannot combine tool results'')"
  using ToolResult_add_text [of "empty_result\<lparr>output := PStr ''x''\<rparr>" "Some ''x''"
                                "empty_result\<lparr>output := PStr ''y''\<rparr>" "Some ''y''"]
        ToolResult_add_text [of "empty_result\<lparr>error := Some ''e''\<rparr>" None empty_result None]
        ToolResult_add_text [of "empty_result\<lparr>base64_image := Some ''p1''\<rparr>" None
                                "empty_result\<lparr>base64_image := Some ''p2''\<rparr>" None]
  by (simp add: empty_result_def opt_val_def merged_text_def)

text \<open>
  Three sums. An error that is the empty string plus no error: the error of the sum is
  \<^verbatim>\<open>None\<close>, not the left value. An image that is the empty string plus an image: both
  sides hold an image and the sum exists. Output 1 plus output y: both sides hold an
  output and the sum raises \<^verbatim>\<open>TypeError\<close>.
\<close>

theorem ToolResult_add_counterexample:
  "ToolResult_add (empty_result\<lparr>error := Some []\<rparr>) empty_result = Inr empty_result
   \<and> error (empty_result\<lparr>error := Some []\<rparr>) = Some []
   \<and> error empty_result = None
   \<and> ToolResult_add (empty_result\<lparr>base64_image := Some []\<rparr>)
                     (empty_result\<lparr>base64_image := Some ''p''\<rparr>)
       = Inr (empty_result\<lparr>base64_image := Some ''p''\<rparr>)
   \<and> ToolResult_add (empty_result\<lparr>output := PInt 1\<rparr>) (empty_result\<lparr>output := PStr ''y''\<rparr>)
       = Inl (TypeError ''unsupported operand type(s) for +'')"
  by (simp add: ToolResult_add_def combine_fields_def empty_result_def)

lemma truthy_opt_falsy: "truthy_opt x \<longleftrightarrow> x \<notin> {None, Some []}"
  by (cases x) auto

text \<open>
  C8. A result is true exactly when at least one of its fields holds a value that is
  itself true: an \<^verbatim>\<open>output\<close> whose own truth value \<^verbatim>\<open>bool(output)\<close> is true
  (so not \<^verbatim>\<open>None\<close>, \<^verbatim>\<open>False\<close>, \<^verbatim>\<open>0\<close> or an empty string or container of any
  kind), or an \<^verbatim>\<open>error\<close>, \<^verbatim>\<open>base64_image\<close> or \<^verbatim>\<open>system\<close> that is a
  non-empty string.
\<close>

theorem ToolResult_bool_iff:
  "ToolResult_bool r \<longleftrightarrow>
     truthy (output r)
     \<or> error r \<notin> {None, Some []}
     \<or> base64_image r \<notin> {None, Some []}
     \<or> system r \<notin> {None, Some []}"
proof -
  have "ToolResult_bool r \<longleftrightarrow>
          truthy (output r) \<or> truthy_opt (error r) \<or> truthy_opt (base64_image r)
          \<or> truthy_opt (system r)"
    by (simp add: ToolResult_bool_def ToolResult_fields_def getattr_def)
  then show ?thesis
    unfolding truthy_opt_falsy .
qed

text \<open>
  A result with a system note is true, a result whose output is the tuple \<^verbatim>\<open>(0,)\<close> is
  true, and the empty result is false.
\<close>

theorem ToolResult_bool_iff_witness:
  "ToolResult_bool (empty_result\<lparr>system := Some ''note''\<rparr>)
   \<and> ToolResult_bool (empty_result\<lparr>output := PTuple [PInt 0]\<rparr>)
   \<and> \<not> ToolResult_bool empty_result"
  using ToolResult_bool_iff [of "empty_result\<lparr>system := Some ''note''\<rparr>"]
        ToolResult_bool_iff [of "empty_result\<lparr>output := PTuple [PInt 0]\<rparr>"]
        ToolResult_bool_iff [of empty_result]
  by (simp add: empty_result_def)

text \<open>
  Results whose output is set to 0, to the empty string and to the empty tuple, and a
  result whose error is set to the empty string: each has a field that is not
  \<^verbatim>\<open>None\<close>, and each is false.
\<close>

theorem ToolResult_bool_counterexample:
  "\<not> ToolResult_bool (empty_result\<lparr>output := PInt 0\<rparr>)
   \<and> output (empty_result\<lparr>output := PInt 0\<rparr>) \<noteq> PNone
   \<and> \<not> ToolResult_bool (empty_result\<lparr>output := PStr []\<rparr>)
   \<and> output (empty_result\<lparr>output := PStr []\<rparr>) \<noteq> PNone
   \<and> \<not> ToolResult_bool (empty_result\<lparr>output := PTuple []\<rparr>)
   \<and> output (empty_result\<lparr>output := PTuple []\<rparr>) \<noteq> PNone
   \<and> \<not> ToolResult_bool (empty_result\<lparr>error := Some []\<rparr>)
   \<and> error (empty_result\<lparr>error := Some []\<rparr>) \<noteq> None"
  by (simp add: ToolResult_bool_def ToolResult_fields_def getattr_def opt_val_def empty_result_def)

section \<open>Properties of the schema generator\<close>

text \<open>
  C9. Constructing the tool for the response type \<^verbatim>\<open>int\<close> (with room for the two nested
  calls) gives it the schema of type object with the single property \<^verbatim>\<open>response\<close> of
  type integer, and the required list \<^verbatim>\<open>["response"]\<close>.
\<close>

theorem schema_for_int:
  "CreateChatCompletion_init (Suc (Suc depth)) T_int =
     Inr \<lparr>name = ''create_chat_completion'',
          description = ''Creates a structured completion with specified output formatting.'',
          parameters = Some (PDict
            [(''type'', PStr ''object''),
             (''properties'', PDict [(''response'', PDict
                [(''type'', PStr ''integer''),
                 (''description'', PStr ''Response of type int'')])]),
             (''required'', PList [PStr ''response''])]),
          response_type = T_int,
          required = [''response'']\<rparr>"
  by (simp add: CreateChatCompletion_init_def required_val_def type_mapping_get_def)

text \<open>At depth two the constructor returns the tool \<open>int_tool\<close>.\<close>

theorem schema_for_int_witness:
  "CreateChatCompletion_init 2 T_int = Inr int_tool"
  using schema_for_int [of 0] by (simp add: numeral_2_eq_2 int_tool_def)

lemma dict_set_map:
  "dict_set (map (\<lambda>f. (f, g f)) ys) x (g x) =
     (if x \<in> set ys then map (\<lambda>f. (f, g f)) ys else map (\<lambda>f. (f, g f)) ys @ [(x, g x)])"
  by (induction ys) auto

lemma first_occurrences_snoc:
  "rev (remdups (rev (xs @ [x]))) =
     (if x \<in> set xs then rev (remdups (rev xs)) else rev (remdups (rev xs)) @ [x])"
  by simp

lemma set_first_occurrences: "set (rev (remdups (rev xs))) = set xs"
  by simp

lemma foldl_dict_set:
  "foldl (\<lambda>d field. dict_set d field (g field)) [] req =
     map (\<lambda>f. (f, g f)) (rev (remdups (rev req)))"
proof (induction req rule: rev_induct)
  case Nil
  show ?case by simp
next
  case (snoc x xs)
  have "foldl (\<lambda>d field. dict_set d field (g field)) [] (xs @ [x]) =
        dict_set (map (\<lambda>f. (f, g f)) (rev (remdups (rev xs)))) x (g x)"
    using snoc.IH by simp
  also have "\<dots> = map (\<lambda>f. (f, g f)) (rev (remdups (rev (xs @ [x]))))"
    unfolding dict_set_map first_occurrences_snoc set_first_occurrences by simp
  finally show ?case .
qed

lemma required_fields_dict_eq:
  "required_fields_dict kwargs req =
     map (\<lambda>field. (field, case kwargs field of Some v \<Rightarrow> v | None \<Rightarrow> PStr []))
         (rev (remdups (rev req)))"
  unfolding required_fields_dict_def kwargs_get_def by (rule foldl_dict_set)

text \<open>
  C10. When the required list in force (the argument, or the tool's own list if the
  argument is missing or empty) has two or more entries, \<^verbatim>\<open>execute\<close> returns the
  dictionary with one entry for each required field, in order of first occurrence, whose
  value is the raw value passed for that field, or the empty string when none was passed.
  Fields passed but not required do not appear, and neither the response type nor the
  conversion \<open>call\<close> has any influence on the result.
\<close>

theorem execute_multiple_required:
  assumes "2 \<le> length (effective_required self required_arg)"
  shows "execute call self required_arg kwargs =
           Inr (PDict (map (\<lambda>field. (field, case kwargs field of Some v \<Rightarrow> v | None \<Rightarrow> PStr []))
                           (rev (remdups (rev (effective_required self required_arg))))))"
  using assms by (auto simp add: execute_def Let_def required_fields_dict_eq)

text \<open>
  Required a and b with raw fields a, b and c: the result holds a and b only, and the
  integers are returned as they came although the response type is \<^verbatim>\<open>int\<close>. A field
  that is required twice appears once, and a missing one is the empty string. The
  conversion passed in raises whenever it is called; it is never called here.
\<close>

theorem execute_multiple_required_witness:
  "effective_required int_tool (Some [''a'', ''b'']) = [''a'', ''b'']
   \<and> execute (\<lambda>t args kw. Inl (TypeError [])) int_tool (Some [''a'', ''b''])
           [''a'' \<mapsto> PInt 1, ''b'' \<mapsto> PInt 2, ''c'' \<mapsto> PInt 3]
     = Inr (PDict [(''a'', PInt 1), (''b'', PInt 2)])
   \<and> execute (\<lambda>t args kw. Inl (TypeError [])) int_tool (Some [''a'', ''b'', ''a''])
           [''b'' \<mapsto> PBool True]
     = Inr (PDict [(''a'', PStr []), (''b'', PBool True)])"
  using execute_multiple_required [of int_tool "Some [''a'', ''b'']" "\<lambda>t args kw. Inl (TypeError [])"
          "[''a'' \<mapsto> PInt 1, ''b'' \<mapsto> PInt 2, ''c'' \<mapsto> PInt 3]"]
        execute_multiple_required [of int_tool "Some [''a'', ''b'', ''a'']"
          "\<lambda>t args kw. Inl (TypeError [])" "[''b'' \<mapsto> PBool True]"]
  by (simp add: effective_required_def)

end
